theory Spec2Isabelle
  imports
    Complex_Main
    "HOL-Library.AList"
    "HOL-Library.Char_ord"
    "HOL-Library.List_Lexorder"
    "HOL-Library.Multiset"
begin

section \<open>GarudaNetra: the in-memory attendance store and its HTTP handlers\<close>

text \<open>
  The development embeds the class \<^verbatim>\<open>MemStorage\<close> of the server's storage module and the
  attendance and report handlers of \<^verbatim>\<open>server/routes.ts\<close>.

  Conventions of the embedding:
  \<^item> a JavaScript \<^verbatim>\<open>Map\<close> from string keys is an association list in insertion order:
    \<^verbatim>\<open>set\<close> is \<^const>\<open>AList.update\<close> (an existing key keeps its position, a new key goes
    to the end), \<^verbatim>\<open>delete\<close> is \<^const>\<open>AList.delete\<close>, \<^verbatim>\<open>get\<close> is \<^const>\<open>map_of\<close> and
    \<^verbatim>\<open>values()\<close> is \<open>map snd\<close>;
  \<^item> \<^verbatim>\<open>randomUUID()\<close> and \<^verbatim>\<open>new Date()\<close> are inputs of the operation that calls them:
    the fresh identifier \<open>uid\<close>, the clock reading \<open>now\<close>, and \<open>today\<close> for
    \<^verbatim>\<open>new Date().toISOString().split('T')[0]\<close>;
  \<^item> a JavaScript string is a \<^typ>\<open>string\<close>; the operators \<^verbatim>\<open><=\<close> and \<^verbatim>\<open>>=\<close> on strings
    compare code units lexicographically, which is the order of \<^typ>\<open>char list\<close> given by
    the imported list and character orders;
  \<^item> \<^verbatim>\<open>String.prototype.localeCompare\<close> belongs to the runtime; it is the parameter \<open>lc\<close>
    of every operation that sorts;
  \<^item> a JavaScript number that counts something is an \<^typ>\<open>int\<close>; a quotient is the exact
    \<^typ>\<open>real\<close> that the double approximates;
  \<^item> a value of type \<^verbatim>\<open>string | null | undefined\<close> is a \<^typ>\<open>string option\<close>.
\<close>

subsection \<open>Schema types\<close>

text \<open>
  \<^verbatim>\<open>InsertStudent\<close> and \<^verbatim>\<open>Student\<close> (the opaque JSON column \<^verbatim>\<open>faceDescriptor\<close> is left
  out). The stored record is the inserted one extended by the server-assigned fields, as
  in the object spread of \<^verbatim>\<open>createStudent\<close>.
\<close>

record InsertStudent =
  admissionNo :: string
  name :: string
  className :: string
  section_student :: string
  rollNo :: string
  email :: "string option"
  contactNo :: "string option"
  parentContact :: "string option"
  photoUrl :: "string option"

record Student = InsertStudent +
  id_student :: string
  qrCode :: "string option"
  createdAt :: nat

text \<open>
  \<^verbatim>\<open>InsertAttendance\<close> and \<^verbatim>\<open>Attendance\<close>. The columns \<^verbatim>\<open>status\<close> and \<^verbatim>\<open>method\<close> (here
  \<open>method_attendance\<close>) are \<^verbatim>\<open>text\<close> columns: the insert schema accepts any string for
  them.
\<close>

record InsertAttendance =
  studentId :: string
  date :: string
  status :: string
  method_attendance :: "string option"
  markedBy :: "string option"

record Attendance = InsertAttendance +
  id_attendance :: string
  timestamp :: nat

record Store =
  students :: "(string \<times> Student) list"
  attendance :: "(string \<times> Attendance) list"

record StudentFilters =
  filter_className :: "string option"
  filter_section :: "string option"

record DateRange =
  range_from :: string
  range_to :: string

record AttendanceStats =
  totalStudents :: int
  present :: int
  absent :: int
  late :: int
  attendanceRate :: real

subsection \<open>JavaScript primitives used by the store\<close>

text \<open>Truthiness of a \<^verbatim>\<open>string | null | undefined\<close>: only a non-empty string is truthy.\<close>

definition truthy :: "string option \<Rightarrow> bool" where
  "truthy x = (case x of None \<Rightarrow> False | Some s \<Rightarrow> s \<noteq> [])"

text \<open>\<^verbatim>\<open>x || null\<close>\<close>

definition or_null :: "string option \<Rightarrow> string option" where
  "or_null x = (if truthy x then x else None)"

text \<open>
  \<^verbatim>\<open>Array.prototype.sort(cmp)\<close>: a stable sort that puts \<open>a\<close> before \<open>b\<close> when
  \<open>cmp a b < 0\<close> and keeps the input order of elements that compare equal. For a
  consistent comparator every stable sort returns the same array, here computed by
  insertion from the right.
\<close>

fun insort_cmp :: "('a \<Rightarrow> 'a \<Rightarrow> int) \<Rightarrow> 'a \<Rightarrow> 'a list \<Rightarrow> 'a list" where
  "insort_cmp cmp x [] = [x]"
| "insort_cmp cmp x (y # ys) =
     (if cmp x y \<le> 0 then x # y # ys else y # insort_cmp cmp x ys)"

definition array_sort :: "('a \<Rightarrow> 'a \<Rightarrow> int) \<Rightarrow> 'a list \<Rightarrow> 'a list" where
  "array_sort cmp xs = foldr (insort_cmp cmp) xs []"

text \<open>
  A comparator on strings by code units, \<open>-1\<close>, \<open>0\<close> or \<open>1\<close>: one admissible value of
  the parameter \<open>lc\<close>, used to run the operations on concrete stores.
\<close>

definition codeUnitCompare :: "string \<Rightarrow> string \<Rightarrow> int" where
  "codeUnitCompare a b = (if a < b then - 1 else if a = b then 0 else 1)"

text \<open>\<^verbatim>\<open>Math.round\<close>: the nearest integer, a half rounded up.\<close>

definition Math_round :: "real \<Rightarrow> int" where
  "Math_round x = \<lfloor>x + 1 / 2\<rfloor>"

subsection \<open>MemStorage: students\<close>

definition getStudent :: "Store \<Rightarrow> string \<Rightarrow> Student option" where
  "getStudent st i = map_of (students st) i"

text \<open>\<^verbatim>\<open>filters?.className\<close> and \<^verbatim>\<open>filters?.section\<close>\<close>

definition opt_className :: "StudentFilters option \<Rightarrow> string option" where
  "opt_className filters = (case filters of None \<Rightarrow> None | Some f \<Rightarrow> filter_className f)"

definition opt_section :: "StudentFilters option \<Rightarrow> string option" where
  "opt_section filters = (case filters of None \<Rightarrow> None | Some f \<Rightarrow> filter_section f)"

definition getStudents ::
  "(string \<Rightarrow> string \<Rightarrow> int) \<Rightarrow> Store \<Rightarrow> StudentFilters option \<Rightarrow> Student list" where
  "getStudents lc st filters =
     (let students0 = map snd (students st);
          students1 = (if truthy (opt_className filters)
                       then filter (\<lambda>s. Some (className s) = opt_className filters) students0
                       else students0);
          students2 = (if truthy (opt_section filters)
                       then filter (\<lambda>s. Some (section_student s) = opt_section filters) students1
                       else students1)
      in array_sort (\<lambda>a b. lc (name a) (name b)) students2)"

definition createStudent :: "string \<Rightarrow> nat \<Rightarrow> InsertStudent \<Rightarrow> Store \<Rightarrow> Student \<times> Store" where
  "createStudent uid now insertStudent st =
     (let student = \<lparr> admissionNo = admissionNo insertStudent,
                       name = name insertStudent,
                       className = className insertStudent,
                       section_student = section_student insertStudent,
                       rollNo = rollNo insertStudent,
                       email = or_null (email insertStudent),
                       contactNo = or_null (contactNo insertStudent),
                       parentContact = or_null (parentContact insertStudent),
                       photoUrl = photoUrl insertStudent,
                       id_student = uid,
                       qrCode = Some (''QR_'' @ admissionNo insertStudent),
                       createdAt = now \<rparr>
      in (student, st\<lparr>students := AList.update uid student (students st)\<rparr>))"

text \<open>
  \<^verbatim>\<open>updateStudent\<close> merges a \<^verbatim>\<open>Partial<InsertStudent>\<close> into the stored student: a key
  that is present in the patch (\<open>Some\<close>) replaces the field, an absent one (\<open>None\<close>) leaves
  it. The patch has no identifier field.
\<close>

record StudentPatch =
  patch_admissionNo :: "string option"
  patch_name :: "string option"
  patch_className :: "string option"
  patch_section :: "string option"
  patch_rollNo :: "string option"
  patch_email :: "string option option"
  patch_contactNo :: "string option option"
  patch_parentContact :: "string option option"
  patch_photoUrl :: "string option option"

definition spread :: "'a \<Rightarrow> 'a option \<Rightarrow> 'a" where
  "spread old upd = (case upd of None \<Rightarrow> old | Some v \<Rightarrow> v)"

definition updateStudent :: "string \<Rightarrow> StudentPatch \<Rightarrow> Store \<Rightarrow> Student option \<times> Store" where
  "updateStudent i updates st =
     (case map_of (students st) i of
        None \<Rightarrow> (None, st)
      | Some student \<Rightarrow>
         (let updatedStudent = student
                \<lparr> admissionNo := spread (admissionNo student) (patch_admissionNo updates),
                  name := spread (name student) (patch_name updates),
                  className := spread (className student) (patch_className updates),
                  section_student := spread (section_student student) (patch_section updates),
                  rollNo := spread (rollNo student) (patch_rollNo updates),
                  email := spread (email student) (patch_email updates),
                  contactNo := spread (contactNo student) (patch_contactNo updates),
                  parentContact := spread (parentContact student) (patch_parentContact updates),
                  photoUrl := spread (photoUrl student) (patch_photoUrl updates) \<rparr>
          in (Some updatedStudent,
              st\<lparr>students := AList.update i updatedStudent (students st)\<rparr>)))"

text \<open>\<^verbatim>\<open>Map.prototype.delete\<close> returns whether the key was present.\<close>

definition deleteStudent :: "string \<Rightarrow> Store \<Rightarrow> bool \<times> Store" where
  "deleteStudent i st =
     (map_of (students st) i \<noteq> None, st\<lparr>students := AList.delete i (students st)\<rparr>)"

subsection \<open>MemStorage: attendance\<close>

definition getAttendance :: "Store \<Rightarrow> string \<Rightarrow> string \<Rightarrow> Attendance option" where
  "getAttendance st sid d =
     find (\<lambda>a. studentId a = sid \<and> date a = d) (map snd (attendance st))"

definition getAttendanceByDate :: "Store \<Rightarrow> string \<Rightarrow> string option \<Rightarrow> Attendance list" where
  "getAttendanceByDate st d cn =
     (let attendanceRecords = filter (\<lambda>a. date a = d) (map snd (attendance st))
      in if truthy cn
         then (let studentsInClass = filter (\<lambda>s. Some (className s) = cn) (map snd (students st));
                   studentIds = set (map id_student studentsInClass)
               in filter (\<lambda>a. studentId a \<in> studentIds) attendanceRecords)
         else attendanceRecords)"

definition getAttendanceHistory ::
  "(string \<Rightarrow> string \<Rightarrow> int) \<Rightarrow> Store \<Rightarrow> string \<Rightarrow> DateRange option \<Rightarrow> Attendance list" where
  "getAttendanceHistory lc st sid dateRange =
     (let records0 = filter (\<lambda>a. studentId a = sid) (map snd (attendance st));
          records1 = (case dateRange of
                        None \<Rightarrow> records0
                      | Some r \<Rightarrow> filter (\<lambda>a. date a \<ge> range_from r \<and> date a \<le> range_to r) records0)
      in array_sort (\<lambda>a b. lc (date b) (date a)) records1)"

definition createAttendance ::
  "string \<Rightarrow> nat \<Rightarrow> InsertAttendance \<Rightarrow> Store \<Rightarrow> Attendance \<times> Store" where
  "createAttendance uid now insertAttendance st =
     (let a = \<lparr> studentId = studentId insertAttendance,
                 date = date insertAttendance,
                 status = status insertAttendance,
                 method_attendance = or_null (method_attendance insertAttendance),
                 markedBy = or_null (markedBy insertAttendance),
                 id_attendance = uid,
                 timestamp = now \<rparr>
      in (a, st\<lparr>attendance := AList.update uid a (attendance st)\<rparr>))"

subsection \<open>MemStorage: statistics\<close>

definition getAttendanceStats ::
  "(string \<Rightarrow> string \<Rightarrow> int) \<Rightarrow> Store \<Rightarrow> string \<Rightarrow> string option \<Rightarrow> AttendanceStats" where
  "getAttendanceStats lc st d cn =
     (let studentList = getStudents lc st
            (if truthy cn then Some \<lparr> filter_className = cn, filter_section = None \<rparr> else None);
          attendanceRecords = getAttendanceByDate st d cn;
          total = int (length studentList);
          presentCount = int (length (filter (\<lambda>a. status a = ''present'') attendanceRecords));
          absentCount = int (length (filter (\<lambda>a. status a = ''absent'') attendanceRecords));
          lateCount = int (length (filter (\<lambda>a. status a = ''late'') attendanceRecords));
          unmarked = total - int (length attendanceRecords);
          totalAbsent = absentCount + unmarked;
          rate = (if total > 0 then (real_of_int presentCount / real_of_int total) * 100 else 0)
      in \<lparr> totalStudents = total, present = presentCount, absent = totalAbsent,
           late = lateCount, attendanceRate = rate \<rparr>)"

definition getStudentAttendancePercentage ::
  "(string \<Rightarrow> string \<Rightarrow> int) \<Rightarrow> Store \<Rightarrow> string \<Rightarrow> DateRange option \<Rightarrow> real" where
  "getStudentAttendancePercentage lc st sid dateRange =
     (let records = getAttendanceHistory lc st sid dateRange
      in if length records = 0 then 0
         else (let presentDays =
                     length (filter (\<lambda>r. status r = ''present'' \<or> status r = ''late'') records)
               in (real presentDays / real (length records)) * 100))"

subsection \<open>MemStorage: the constructor\<close>

text \<open>
  \<^verbatim>\<open>initializeDefaultData\<close> as far as students and attendance go: three sample students of
  class 12 and a present mark for the first two of them on the day of construction. The
  identifiers drawn from \<^verbatim>\<open>randomUUID()\<close> are the parameters \<open>teacherId\<close>, \<open>s1\<close>, \<open>s2\<close>, \<open>s3\<close>
  (students) and \<open>a1\<close>, \<open>a2\<close> (attendance records).
\<close>

definition sampleStudents :: "string \<Rightarrow> string \<Rightarrow> string \<Rightarrow> nat \<Rightarrow> Student list" where
  "sampleStudents s1 s2 s3 now =
     [ \<lparr> admissionNo = ''APS001'', name = ''Aarav Sharma'', className = ''12'',
         section_student = ''A'', rollNo = ''01'',
         email = Some ''aarav.sharma@student.aps.edu'', contactNo = Some ''9876543210'',
         parentContact = Some ''9876543211'', photoUrl = None,
         id_student = s1, qrCode = Some ''QR_APS001'', createdAt = now \<rparr>,
       \<lparr> admissionNo = ''APS002'', name = ''Priya Patel'', className = ''12'',
         section_student = ''A'', rollNo = ''02'',
         email = Some ''priya.patel@student.aps.edu'', contactNo = Some ''9876543212'',
         parentContact = Some ''9876543213'', photoUrl = None,
         id_student = s2, qrCode = Some ''QR_APS002'', createdAt = now \<rparr>,
       \<lparr> admissionNo = ''APS003'', name = ''Rahul Kumar'', className = ''12'',
         section_student = ''B'', rollNo = ''01'',
         email = Some ''rahul.kumar@student.aps.edu'', contactNo = Some ''9876543214'',
         parentContact = Some ''9876543215'', photoUrl = None,
         id_student = s3, qrCode = Some ''QR_APS003'', createdAt = now \<rparr> ]"

definition initializeDefaultData ::
  "string \<Rightarrow> string \<Rightarrow> string \<Rightarrow> string \<Rightarrow> string \<Rightarrow> string \<Rightarrow> nat \<Rightarrow> string \<Rightarrow> Store" where
  "initializeDefaultData teacherId s1 s2 s3 a1 a2 now today =
     (let samples = sampleStudents s1 s2 s3 now;
          studentMap = foldl (\<lambda>m s. AList.update (id_student s) s m) [] samples;
          marks = map (\<lambda>(uid, student).
                    \<lparr> studentId = id_student student, date = today, status = ''present'',
                      method_attendance = Some ''manual'', markedBy = Some teacherId,
                      id_attendance = uid, timestamp = now \<rparr>)
                    (zip [a1, a2] (take 2 samples));
          attendanceMap = foldl (\<lambda>m a. AList.update (id_attendance a) a m) [] marks
      in \<lparr> students = studentMap, attendance = attendanceMap \<rparr>)"

subsection \<open>Attendance handlers of the router\<close>

text \<open>
  The outcomes a handler answers with, under the names of the error taxonomy:
  \<^item> \<open>NotFoundError\<close>: status 404, "Student not found";
  \<^item> \<open>DuplicateError\<close>: status 400, "Attendance already marked for today";
  \<^item> \<open>LowConfidenceError\<close>: status 400, "Face recognition confidence too low";
  \<^item> \<open>ValidationError\<close>: status 400 from the \<^verbatim>\<open>catch\<close> block, after the schema's
    \<^verbatim>\<open>parse\<close> (or \<^verbatim>\<open>JSON.parse\<close>) has thrown.

  A handler maps the store to its answer and the store it leaves behind.
\<close>

datatype error = NotFoundError | DuplicateError | LowConfidenceError | ValidationError

text \<open>
  \<^verbatim>\<open>POST /api/attendance\<close>, the manual path. The body has passed
  \<^verbatim>\<open>insertAttendanceSchema.parse\<close>, which is what the type \<^typ>\<open>InsertAttendance\<close> says; the
  handler then stores it and answers 201 with the record.
\<close>

definition postAttendance ::
  "string \<Rightarrow> nat \<Rightarrow> InsertAttendance \<Rightarrow> Store \<Rightarrow> (error + Attendance) \<times> Store" where
  "postAttendance uid now attendanceData st =
     (let (a, st') = createAttendance uid now attendanceData st in (Inr a, st'))"

text \<open>
  \<^verbatim>\<open>POST /api/attendance/qr\<close>. The schema wants a string \<^verbatim>\<open>qrData\<close> and the literal
  \<^verbatim>\<open>method: "qr"\<close>. \<^verbatim>\<open>JSON.parse(qrData).studentId\<close> is the parameter \<open>jsonStudentId\<close>:
  \<open>None\<close> when it throws, \<open>Some None\<close> when the payload has no such property.
\<close>

record QrBody =
  qrData :: string
  qr_method :: "string option"

definition postAttendanceQr ::
  "(string \<Rightarrow> string option option) \<Rightarrow> string \<Rightarrow> string \<Rightarrow> nat \<Rightarrow> QrBody \<Rightarrow> Store
     \<Rightarrow> (error + Student \<times> Attendance) \<times> Store" where
  "postAttendanceQr jsonStudentId today uid now body st =
     (if qr_method body \<noteq> Some ''qr'' then (Inl ValidationError, st)
      else case jsonStudentId (qrData body) of
        None \<Rightarrow> (Inl ValidationError, st)
      | Some sidOpt \<Rightarrow>
         (case (case sidOpt of None \<Rightarrow> None | Some sid \<Rightarrow> getStudent st sid) of
            None \<Rightarrow> (Inl NotFoundError, st)
          | Some student \<Rightarrow>
             (case getAttendance st (id_student student) today of
                Some existingAttendance \<Rightarrow> (Inl DuplicateError, st)
              | None \<Rightarrow>
                 (let (a, st') = createAttendance uid now
                        \<lparr> studentId = id_student student, date = today, status = ''present'',
                          method_attendance = Some ''qr'', markedBy = None \<rparr> st
                  in (Inr (student, a), st')))))"

text \<open>
  \<^verbatim>\<open>POST /api/attendance/face\<close>. The schema wants \<^verbatim>\<open>confidence\<close> to be a number between 0
  and 100; the handler's own gate is \<^verbatim>\<open>confidence < 80\<close>.
\<close>

record FaceBody =
  face_studentId :: string
  imageData :: string
  confidence :: real

definition postAttendanceFace ::
  "string \<Rightarrow> string \<Rightarrow> nat \<Rightarrow> FaceBody \<Rightarrow> Store \<Rightarrow> (error + Student \<times> Attendance) \<times> Store" where
  "postAttendanceFace today uid now body st =
     (if \<not> (0 \<le> confidence body \<and> confidence body \<le> 100) then (Inl ValidationError, st)
      else if confidence body < 80 then (Inl LowConfidenceError, st)
      else case getStudent st (face_studentId body) of
        None \<Rightarrow> (Inl NotFoundError, st)
      | Some student \<Rightarrow>
         (case getAttendance st (id_student student) today of
            Some existingAttendance \<Rightarrow> (Inl DuplicateError, st)
          | None \<Rightarrow>
             (let (a, st') = createAttendance uid now
                    \<lparr> studentId = id_student student, date = today, status = ''present'',
                      method_attendance = Some ''face'', markedBy = None \<rparr> st
              in (Inr (student, a), st'))))"

subsection \<open>Report handler of the router\<close>

record ReportBody =
  report_type :: string
  dateRange :: DateRange
  report_className :: "string option"
  format :: "string option"

text \<open>
  \<^verbatim>\<open>reportGenerationSchema.parse\<close>: \<^verbatim>\<open>type\<close> and \<^verbatim>\<open>format\<close> are enumerations, and neither
  is optional.
\<close>

definition reportGenerationSchema_parse :: "ReportBody \<Rightarrow> error + ReportBody" where
  "reportGenerationSchema_parse body =
     (if report_type body \<in> set [''daily'', ''weekly'', ''monthly'', ''custom'']
         \<and> format body \<in> set [Some ''excel'', Some ''csv'', Some ''pdf'']
      then Inr body else Inl ValidationError)"

record ReportEntry =
  entry_student :: Student
  totalDays :: int
  presentDays :: int
  absentDays :: int
  percentage :: int

text \<open>The object handed to \<^verbatim>\<open>XLSX.utils.json_to_sheet\<close> for one entry, column by column.\<close>

record SheetRow =
  col_AdmissionNo :: string
  col_Name :: string
  col_Class :: string
  col_TotalDays :: int
  col_PresentDays :: int
  col_AbsentDays :: int
  col_AttendancePct :: int

definition sheetRow :: "ReportEntry \<Rightarrow> SheetRow" where
  "sheetRow r =
     \<lparr> col_AdmissionNo = admissionNo (entry_student r),
       col_Name = name (entry_student r),
       col_Class = className (entry_student r) @ ''-'' @ section_student (entry_student r),
       col_TotalDays = totalDays r,
       col_PresentDays = presentDays r,
       col_AbsentDays = absentDays r,
       col_AttendancePct = percentage r \<rparr>"

text \<open>
  What the handler sends. The byte encodings are the work of the spreadsheet and document
  libraries; an answer is identified by the rows (or entries) the handler gives them.
\<close>

datatype report_response =
    ExcelFile "SheetRow list"
  | CsvFile "SheetRow list"
  | PdfFile "ReportEntry list"
  | JsonData "ReportEntry list"

definition reportEntry ::
  "(string \<Rightarrow> string \<Rightarrow> int) \<Rightarrow> Store \<Rightarrow> DateRange \<Rightarrow> Student \<Rightarrow> ReportEntry" where
  "reportEntry lc st dr student =
     (let history = getAttendanceHistory lc st (id_student student) (Some dr);
          pct = getStudentAttendancePercentage lc st (id_student student) (Some dr)
      in \<lparr> entry_student = student,
           totalDays = int (length history),
           presentDays = int (length (filter (\<lambda>h. status h = ''present'' \<or> status h = ''late'') history)),
           absentDays = int (length (filter (\<lambda>h. status h = ''absent'') history)),
           percentage = Math_round pct \<rparr>)"

text \<open>The loop that fills \<^verbatim>\<open>reportData\<close>: one entry per student, in the order of \<open>getStudents\<close>.\<close>

definition reportData ::
  "(string \<Rightarrow> string \<Rightarrow> int) \<Rightarrow> Store \<Rightarrow> ReportBody \<Rightarrow> ReportEntry list" where
  "reportData lc st req =
     (let studentList = getStudents lc st
            (if truthy (report_className req)
             then Some \<lparr> filter_className = report_className req, filter_section = None \<rparr>
             else None)
      in map (reportEntry lc st (dateRange req)) studentList)"

definition generateReport ::
  "(string \<Rightarrow> string \<Rightarrow> int) \<Rightarrow> Store \<Rightarrow> ReportBody \<Rightarrow> error + report_response" where
  "generateReport lc st body =
     (case reportGenerationSchema_parse body of
        Inl e \<Rightarrow> Inl e
      | Inr req \<Rightarrow>
         (let entries = reportData lc st req
          in Inr (if format req = Some ''excel'' then ExcelFile (map sheetRow entries)
                  else if format req = Some ''csv'' then CsvFile (map sheetRow entries)
                  else if format req = Some ''pdf'' then PdfFile entries
                  else JsonData entries)))"

subsection \<open>Views of the store used to state the properties\<close>

text \<open>
  The students a class filter selects (an absent or empty filter selects every student),
  the attendance records of a date that belong to them, the number of records carrying a
  given status, and the records of one student inside an optional date range, bounds
  included.
\<close>

definition studentsInScope :: "Store \<Rightarrow> string option \<Rightarrow> Student list" where
  "studentsInScope st cn =
     filter (\<lambda>s. truthy cn \<longrightarrow> Some (className s) = cn) (map snd (students st))"

definition recordsInScope :: "Store \<Rightarrow> string \<Rightarrow> string option \<Rightarrow> Attendance list" where
  "recordsInScope st d cn =
     filter (\<lambda>a. date a = d \<and>
                 (truthy cn \<longrightarrow> studentId a \<in> id_student ` set (studentsInScope st cn)))
       (map snd (attendance st))"

definition countStatus :: "string \<Rightarrow> Attendance list \<Rightarrow> int" where
  "countStatus s rs = int (length (filter (\<lambda>a. status a = s) rs))"

definition recordsInRange :: "Store \<Rightarrow> string \<Rightarrow> DateRange option \<Rightarrow> Attendance list" where
  "recordsInRange st sid dr =
     filter (\<lambda>a. studentId a = sid \<and>
                 (case dr of None \<Rightarrow> True
                  | Some r \<Rightarrow> range_from r \<le> date a \<and> date a \<le> range_to r))
       (map snd (attendance st))"

text \<open>
  The store keeps every student under the student's own identifier. The constructor
  establishes this and every operation on students keeps it (lemmas below).
\<close>

definition students_keyed_by_id :: "Store \<Rightarrow> bool" where
  "students_keyed_by_id st = list_all (\<lambda>(k, s). id_student s = k) (students st)"

text \<open>
  The rule the marking paths are there to keep: the store holds at most one attendance
  record for a student and a date.
\<close>

definition one_record_per_day :: "Store \<Rightarrow> bool" where
  "one_record_per_day st =
     distinct (map (\<lambda>a. (studentId a, date a)) (map snd (attendance st)))"

subsection \<open>A concrete store\<close>

text \<open>
  The constructor's store on 2024-03-04, then a second student called Aarav Sharma in
  class 12, a student of class 11, and three manual marks for the first sample student.
\<close>

definition exampleStore :: Store where
  "exampleStore =
     (let st0 = initializeDefaultData ''t1'' ''s1'' ''s2'' ''s3'' ''a1'' ''a2'' 0 ''2024-03-04'';
          st1 = snd (createStudent ''s4'' 1
                  \<lparr> admissionNo = ''APS004'', name = ''Aarav Sharma'', className = ''12'',
                    section_student = ''B'', rollNo = ''02'', email = None, contactNo = None,
                    parentContact = None, photoUrl = None \<rparr> st0);
          st2 = snd (createStudent ''s5'' 2
                  \<lparr> admissionNo = ''APS005'', name = ''Bina Rao'', className = ''11'',
                    section_student = ''A'', rollNo = ''01'', email = None, contactNo = None,
                    parentContact = None, photoUrl = None \<rparr> st1);
          st3 = snd (postAttendance ''a3'' 3
                  \<lparr> studentId = ''s1'', date = ''2024-03-01'', status = ''absent'',
                    method_attendance = Some ''manual'', markedBy = None \<rparr> st2);
          st4 = snd (postAttendance ''a4'' 4
                  \<lparr> studentId = ''s1'', date = ''2024-03-05'', status = ''late'',
                    method_attendance = Some ''manual'', markedBy = None \<rparr> st3);
          st5 = snd (postAttendance ''a5'' 5
                  \<lparr> studentId = ''s1'', date = ''2024-03-06'', status = ''absent'',
                    method_attendance = Some ''manual'', markedBy = None \<rparr> st4)
      in st5)"

section \<open>Properties\<close>

subsection \<open>The array sort\<close>

lemma mset_insort_cmp: "mset (insort_cmp c x xs) = add_mset x (mset xs)"
  by (induction xs) simp_all

lemma set_insort_cmp: "set (insort_cmp c x xs) = insert x (set xs)"
  by (induction xs) auto

lemma mset_array_sort: "mset (array_sort c xs) = mset xs"
  unfolding array_sort_def by (induction xs) (simp_all add: mset_insort_cmp)

lemma set_array_sort: "set (array_sort c xs) = set xs"
  using mset_array_sort [of c xs] by (metis set_mset_mset)

lemma length_array_sort: "length (array_sort c xs) = length xs"
  using mset_array_sort [of c xs] by (metis size_mset)

lemma length_filter_array_sort:
  "length (filter P (array_sort c xs)) = length (filter P xs)"
proof -
  have "mset (filter P (array_sort c xs)) = mset (filter P xs)"
    by (simp add: mset_array_sort)
  then show ?thesis by (metis size_mset)
qed

text \<open>
  Under a comparator that is total and transitive the result is ascending, and the elements
  that tie with a pivot \<open>p\<close> keep the order they had in the input.
\<close>

lemma sorted_insort_cmp:
  assumes total: "\<And>a b. c a b \<le> 0 \<or> c b a \<le> 0"
    and trans: "\<And>a b d. c a b \<le> 0 \<Longrightarrow> c b d \<le> 0 \<Longrightarrow> c a d \<le> 0"
    and sorted: "sorted_wrt (\<lambda>a b. c a b \<le> 0) xs"
  shows "sorted_wrt (\<lambda>a b. c a b \<le> 0) (insort_cmp c x xs)"
  using sorted
proof (induction xs)
  case Nil
  show ?case by simp
next
  case (Cons y ys)
  show ?case
  proof (cases "c x y \<le> 0")
    case True
    then have "\<forall>z\<in>set ys. c x z \<le> 0"
      using Cons.prems trans by auto
    with True Cons.prems show ?thesis by simp
  next
    case False
    with total have "c y x \<le> 0" by blast
    with False Cons show ?thesis by (auto simp: set_insort_cmp)
  qed
qed

lemma sorted_array_sort:
  assumes "\<And>a b. c a b \<le> 0 \<or> c b a \<le> 0"
    and "\<And>a b d. c a b \<le> 0 \<Longrightarrow> c b d \<le> 0 \<Longrightarrow> c a d \<le> 0"
  shows "sorted_wrt (\<lambda>a b. c a b \<le> 0) (array_sort c xs)"
  unfolding array_sort_def
proof (induction xs)
  case Nil
  show ?case by simp
next
  case (Cons x xs)
  from sorted_insort_cmp [of c "foldr (insort_cmp c) xs []" x, OF assms Cons]
  show ?case by simp
qed

lemma filter_insort_cmp_out:
  "\<not> P x \<Longrightarrow> filter P (insort_cmp c x xs) = filter P xs"
  by (induction xs) simp_all

lemma filter_insort_cmp_tie:
  assumes total: "\<And>a b. c a b \<le> 0 \<or> c b a \<le> 0"
    and trans: "\<And>a b d. c a b \<le> 0 \<Longrightarrow> c b d \<le> 0 \<Longrightarrow> c a d \<le> 0"
    and x: "c x p \<le> 0" "c p x \<le> 0"
  shows "filter (\<lambda>y. c y p \<le> 0 \<and> c p y \<le> 0) (insort_cmp c x xs)
       = x # filter (\<lambda>y. c y p \<le> 0 \<and> c p y \<le> 0) xs"
proof (induction xs)
  case Nil
  from x show ?case by simp
next
  case (Cons y ys)
  show ?case
  proof (cases "c x y \<le> 0")
    case True
    with x show ?thesis by simp
  next
    case False
    have "\<not> (c y p \<le> 0 \<and> c p y \<le> 0)"
    proof
      assume "c y p \<le> 0 \<and> c p y \<le> 0"
      with x(1) have "c x y \<le> 0" using trans by blast
      with False show False by simp
    qed
    with False Cons show ?thesis by auto
  qed
qed

lemma filter_array_sort_tie:
  assumes total: "\<And>a b. c a b \<le> 0 \<or> c b a \<le> 0"
    and trans: "\<And>a b d. c a b \<le> 0 \<Longrightarrow> c b d \<le> 0 \<Longrightarrow> c a d \<le> 0"
  shows "filter (\<lambda>y. c y p \<le> 0 \<and> c p y \<le> 0) (array_sort c xs)
       = filter (\<lambda>y. c y p \<le> 0 \<and> c p y \<le> 0) xs"
  unfolding array_sort_def
proof (induction xs)
  case Nil
  show ?case by simp
next
  case (Cons x xs)
  show ?case
  proof (cases "c x p \<le> 0 \<and> c p x \<le> 0")
    case True
    then show ?thesis
      using filter_insort_cmp_tie [of c x p "foldr (insort_cmp c) xs []", OF total trans] Cons
      by simp
  next
    case False
    then show ?thesis
      using filter_insort_cmp_out [of "\<lambda>y. c y p \<le> 0 \<and> c p y \<le> 0" x c] Cons by simp
  qed
qed

text \<open>The code-unit comparator is total and transitive.\<close>

lemma codeUnitCompare_le: "codeUnitCompare a b \<le> 0 \<longleftrightarrow> a \<le> b"
  by (auto simp: codeUnitCompare_def)

lemma codeUnitCompare_total: "codeUnitCompare a b \<le> 0 \<or> codeUnitCompare b a \<le> 0"
  by (auto simp: codeUnitCompare_def)

lemma codeUnitCompare_trans:
  "codeUnitCompare a b \<le> 0 \<Longrightarrow> codeUnitCompare b d \<le> 0 \<Longrightarrow> codeUnitCompare a d \<le> 0"
  unfolding codeUnitCompare_le by (rule order_trans)

subsection \<open>The concrete store, evaluated\<close>

lemma exampleStore_value:
  "exampleStore =
   \<lparr>students =
       [(''s1'',
         \<lparr>admissionNo = ''APS001'', name = ''Aarav Sharma'',
            className = ''12'', section_student = ''A'', rollNo = ''01'',
            email = Some ''aarav.sharma@student.aps.edu'',
            contactNo = Some ''9876543210'',
            parentContact = Some ''9876543211'', photoUrl = None,
            id_student = ''s1'', qrCode = Some ''QR_APS001'', createdAt = 0\<rparr>),
        (''s2'',
         \<lparr>admissionNo = ''APS002'', name = ''Priya Patel'', className = ''12'',
            section_student = ''A'', rollNo = ''02'',
            email = Some ''priya.patel@student.aps.edu'',
            contactNo = Some ''9876543212'',
            parentContact = Some ''9876543213'', photoUrl = None,
            id_student = ''s2'', qrCode = Some ''QR_APS002'', createdAt = 0\<rparr>),
        (''s3'',
         \<lparr>admissionNo = ''APS003'', name = ''Rahul Kumar'', className = ''12'',
            section_student = ''B'', rollNo = ''01'',
            email = Some ''rahul.kumar@student.aps.edu'',
            contactNo = Some ''9876543214'',
            parentContact = Some ''9876543215'', photoUrl = None,
            id_student = ''s3'', qrCode = Some ''QR_APS003'', createdAt = 0\<rparr>),
        (''s4'',
         \<lparr>admissionNo = ''APS004'', name = ''Aarav Sharma'',
            className = ''12'', section_student = ''B'', rollNo = ''02'',
            email = None, contactNo = None, parentContact = None,
            photoUrl = None, id_student = ''s4'', qrCode = Some ''QR_APS004'',
            createdAt = 1\<rparr>),
        (''s5'',
         \<lparr>admissionNo = ''APS005'', name = ''Bina Rao'', className = ''11'',
            section_student = ''A'', rollNo = ''01'', email = None,
            contactNo = None, parentContact = None, photoUrl = None,
            id_student = ''s5'', qrCode = Some ''QR_APS005'', createdAt = 2\<rparr>)],
       attendance =
         [(''a1'',
           \<lparr>studentId = ''s1'', date = ''2024-03-04'', status = ''present'',
              method_attendance = Some ''manual'', markedBy = Some ''t1'',
              id_attendance = ''a1'', timestamp = 0\<rparr>),
          (''a2'',
           \<lparr>studentId = ''s2'', date = ''2024-03-04'', status = ''present'',
              method_attendance = Some ''manual'', markedBy = Some ''t1'',
              id_attendance = ''a2'', timestamp = 0\<rparr>),
          (''a3'',
           \<lparr>studentId = ''s1'', date = ''2024-03-01'', status = ''absent'',
              method_attendance = Some ''manual'', markedBy = None,
              id_attendance = ''a3'', timestamp = 3\<rparr>),
          (''a4'',
           \<lparr>studentId = ''s1'', date = ''2024-03-05'', status = ''late'',
              method_attendance = Some ''manual'', markedBy = None,
              id_attendance = ''a4'', timestamp = 4\<rparr>),
          (''a5'',
           \<lparr>studentId = ''s1'', date = ''2024-03-06'', status = ''absent'',
              method_attendance = Some ''manual'', markedBy = None,
              id_attendance = ''a5'', timestamp = 5\<rparr>)]\<rparr>"
  by code_simp

subsection \<open>Daily statistics\<close>

lemma getStudents_length_class:
  "length (getStudents lc st
      (if truthy cn then Some \<lparr> filter_className = cn, filter_section = None \<rparr> else None))
   = length (studentsInScope st cn)"
  by (simp add: getStudents_def studentsInScope_def opt_className_def opt_section_def
      truthy_def length_array_sort)

lemma getAttendanceByDate_scope: "getAttendanceByDate st d cn = recordsInScope st d cn"
  by (auto simp: getAttendanceByDate_def recordsInScope_def studentsInScope_def Let_def
      intro!: filter_cong)

text \<open>
  Claim C3. For every date and optional class filter, \<open>getAttendanceStats\<close> returns
  \<open>totalStudents\<close> = the number of students the class filter selects, \<open>present\<close> and \<open>late\<close>
  = the numbers of matching records of the date with that status, \<open>absent\<close> = the recorded
  absences plus (\<open>totalStudents\<close> minus the number of matching records of the date), and
  \<open>attendanceRate\<close> = \<open>present / totalStudents * 100\<close>, which is 0 when there is no student.
  In particular, three students in scope and exactly two records, both present, give
  3, 2, 1, 0 and the unrounded rate 200/3, which is 66.67 to two decimals.
\<close>

theorem getAttendanceStats_formula:
  "totalStudents (getAttendanceStats lc st d cn) = int (length (studentsInScope st cn))
   \<and> present (getAttendanceStats lc st d cn) = countStatus ''present'' (recordsInScope st d cn)
   \<and> late (getAttendanceStats lc st d cn) = countStatus ''late'' (recordsInScope st d cn)
   \<and> absent (getAttendanceStats lc st d cn) =
       countStatus ''absent'' (recordsInScope st d cn)
       + (int (length (studentsInScope st cn)) - int (length (recordsInScope st d cn)))
   \<and> attendanceRate (getAttendanceStats lc st d cn) =
       (if length (studentsInScope st cn) = 0 then 0
        else real_of_int (countStatus ''present'' (recordsInScope st d cn))
             / real (length (studentsInScope st cn)) * 100)
   \<and> (length (studentsInScope st cn) = 3
        \<and> map status (recordsInScope st d cn) = [''present'', ''present'']
       \<longrightarrow> getAttendanceStats lc st d cn =
             \<lparr> totalStudents = 3, present = 2, absent = 1, late = 0, attendanceRate = 200 / 3 \<rparr>
           \<and> \<bar>attendanceRate (getAttendanceStats lc st d cn) - 66.67\<bar> < 0.01)"
proof -
  let ?r = "getAttendanceStats lc st d cn"
  let ?S = "studentsInScope st cn"
  let ?R = "recordsInScope st d cn"
  have total: "totalStudents ?r = int (length ?S)"
    by (simp add: getAttendanceStats_def Let_def getStudents_length_class)
  have pres: "present ?r = countStatus ''present'' ?R"
    by (simp add: getAttendanceStats_def Let_def getAttendanceByDate_scope countStatus_def)
  have lat: "late ?r = countStatus ''late'' ?R"
    by (simp add: getAttendanceStats_def Let_def getAttendanceByDate_scope countStatus_def)
  have abs: "absent ?r = countStatus ''absent'' ?R + (int (length ?S) - int (length ?R))"
    by (simp add: getAttendanceStats_def Let_def getAttendanceByDate_scope countStatus_def
        getStudents_length_class)
  have rate: "attendanceRate ?r =
      (if length ?S = 0 then 0
       else real_of_int (countStatus ''present'' ?R) / real (length ?S) * 100)"
  proof -
    have "attendanceRate ?r =
        (if int (length ?S) > 0
         then real_of_int (countStatus ''present'' ?R) / real_of_int (int (length ?S)) * 100
         else 0)"
      unfolding getAttendanceStats_def Let_def getAttendanceByDate_scope countStatus_def
        getStudents_length_class
      by simp
    then show ?thesis by simp
  qed
  have example: "?r = \<lparr> totalStudents = 3, present = 2, absent = 1, late = 0,
                        attendanceRate = 200 / 3 \<rparr>
                 \<and> \<bar>attendanceRate ?r - 66.67\<bar> < 0.01"
    if three: "length ?S = 3" and two: "map status ?R = [''present'', ''present'']"
  proof -
    from two obtain a b where R: "?R = [a, b]"
      and ab: "status a = ''present''" "status b = ''present''"
      by (auto simp: map_eq_Cons_conv)
    have "countStatus ''present'' ?R = 2" "countStatus ''late'' ?R = 0"
      "countStatus ''absent'' ?R = 0" "length ?R = 2"
      using ab by (simp_all add: R countStatus_def)
    with total pres lat abs rate three
    have "totalStudents ?r = 3" "present ?r = 2" "late ?r = 0" "absent ?r = 1"
      "attendanceRate ?r = 200 / 3"
      by simp_all
    then show ?thesis by (cases ?r) simp
  qed
  show ?thesis
  proof (intro conjI impI)
    assume H: "length ?S = 3 \<and> map status ?R = [''present'', ''present'']"
    from H have h1: "length ?S = 3" ..
    from H have h2: "map status ?R = [''present'', ''present'']" ..
    note ex = example [OF h1 h2]
    from ex show "?r = \<lparr> totalStudents = 3, present = 2, absent = 1, late = 0,
                        attendanceRate = 200 / 3 \<rparr>" ..
    from ex show "\<bar>attendanceRate ?r - 66.67\<bar> < 0.01" ..
  qed (fact total pres lat abs rate)+
qed

text \<open>
  The store the constructor builds is the example: class 12 has three students, two of
  whom are marked present on the day of construction.
\<close>

theorem getAttendanceStats_formula_witness:
  "length (studentsInScope
      (initializeDefaultData ''t1'' ''s1'' ''s2'' ''s3'' ''a1'' ''a2'' 0 ''2024-01-15'')
      (Some ''12'')) = 3
   \<and> map status (recordsInScope
      (initializeDefaultData ''t1'' ''s1'' ''s2'' ''s3'' ''a1'' ''a2'' 0 ''2024-01-15'')
      ''2024-01-15'' (Some ''12'')) = [''present'', ''present'']
   \<and> getAttendanceStats codeUnitCompare
      (initializeDefaultData ''t1'' ''s1'' ''s2'' ''s3'' ''a1'' ''a2'' 0 ''2024-01-15'')
      ''2024-01-15'' (Some ''12'')
     = \<lparr> totalStudents = 3, present = 2, absent = 1, late = 0, attendanceRate = 200 / 3 \<rparr>"
proof -
  let ?st = "initializeDefaultData ''t1'' ''s1'' ''s2'' ''s3'' ''a1'' ''a2'' 0 ''2024-01-15''"
  have h1: "length (studentsInScope ?st (Some ''12'')) = 3"
    by (simp add: studentsInScope_def initializeDefaultData_def sampleStudents_def truthy_def)
  have h2: "map status (recordsInScope ?st ''2024-01-15'' (Some ''12''))
            = [''present'', ''present'']"
    by (simp add: recordsInScope_def studentsInScope_def initializeDefaultData_def
        sampleStudents_def truthy_def)
  from getAttendanceStats_formula [of codeUnitCompare ?st "''2024-01-15''" "Some ''12''"] h1 h2
  show ?thesis by simp
qed

subsection \<open>Attendance history and the student's percentage\<close>

lemma getAttendanceHistory_range:
  "getAttendanceHistory lc st sid dr =
     array_sort (\<lambda>a b. lc (date b) (date a)) (recordsInRange st sid dr)"
  by (cases dr) (simp_all add: getAttendanceHistory_def recordsInRange_def conj_commute)

lemma count_present_or_late:
  "int (length (filter (\<lambda>r. status r = ''present'' \<or> status r = ''late'') rs))
   = countStatus ''present'' rs + countStatus ''late'' rs"
  by (induction rs) (auto simp: countStatus_def)

lemma countStatus_count: "countStatus s rs = int (count (mset (map status rs)) s)"
  by (induction rs) (simp_all add: countStatus_def)

lemma percentage_unfold:
  "getStudentAttendancePercentage lc st sid dr =
     (if recordsInRange st sid dr = [] then 0
      else real_of_int (countStatus ''present'' (recordsInRange st sid dr)
                        + countStatus ''late'' (recordsInRange st sid dr))
           / real (length (recordsInRange st sid dr)) * 100)"
proof -
  let ?R = "recordsInRange st sid dr"
  let ?H = "getAttendanceHistory lc st sid dr"
  let ?P = "\<lambda>r. status r = ''present'' \<or> status r = ''late''"
  have len: "length ?H = length ?R"
    by (simp add: getAttendanceHistory_range length_array_sort)
  have cnt: "int (length (filter ?P ?H)) = countStatus ''present'' ?R + countStatus ''late'' ?R"
    by (simp add: getAttendanceHistory_range length_filter_array_sort count_present_or_late)
  have "real (length (filter ?P ?H)) = real_of_int (int (length (filter ?P ?H)))"
    by simp
  also have "\<dots> = real_of_int (countStatus ''present'' ?R + countStatus ''late'' ?R)"
    by (simp only: cnt)
  finally have num: "real (length (filter ?P ?H))
      = real_of_int (countStatus ''present'' ?R + countStatus ''late'' ?R)" .
  show ?thesis
    unfolding getStudentAttendancePercentage_def Let_def num len by simp
qed

text \<open>
  Claim C4. For every student and optional date range, \<open>getStudentAttendancePercentage\<close>
  is \<open>(present + late) / totalRecords * 100\<close> over the student's records in the range, a
  late mark counting as presence, and 0 when the range holds no record of the student. A
  history of one present, one absent and one late mark gives 200/3, which is 66.67 to two
  decimals; an empty history gives 0.
\<close>

theorem getStudentAttendancePercentage_formula:
  "getStudentAttendancePercentage lc st sid dr =
     (if recordsInRange st sid dr = [] then 0
      else real_of_int (countStatus ''present'' (recordsInRange st sid dr)
                        + countStatus ''late'' (recordsInRange st sid dr))
           / real (length (recordsInRange st sid dr)) * 100)
   \<and> (mset (map status (recordsInRange st sid dr)) = {#''present'', ''absent'', ''late''#}
       \<longrightarrow> getStudentAttendancePercentage lc st sid dr = 200 / 3
         \<and> \<bar>getStudentAttendancePercentage lc st sid dr - 66.67\<bar> < 0.01)
   \<and> (recordsInRange st sid dr = [] \<longrightarrow> getStudentAttendancePercentage lc st sid dr = 0)"
proof (intro conjI impI)
  let ?R = "recordsInRange st sid dr"
  show "getStudentAttendancePercentage lc st sid dr =
     (if ?R = [] then 0
      else real_of_int (countStatus ''present'' ?R + countStatus ''late'' ?R)
           / real (length ?R) * 100)"
    by (rule percentage_unfold)
  show "getStudentAttendancePercentage lc st sid dr = 0" if "?R = []"
    using that by (simp add: percentage_unfold)
  assume hist: "mset (map status ?R) = {#''present'', ''absent'', ''late''#}"
  have "length ?R = size (mset (map status ?R))" by simp
  also have "\<dots> = 3" unfolding hist by simp
  finally have len: "length ?R = 3" .
  have p: "countStatus ''present'' ?R = 1" and l: "countStatus ''late'' ?R = 1"
    unfolding countStatus_count hist by simp_all
  from len have ne: "?R \<noteq> []" by auto
  show val: "getStudentAttendancePercentage lc st sid dr = 200 / 3"
    by (simp add: percentage_unfold ne len p l)
  show "\<bar>getStudentAttendancePercentage lc st sid dr - 66.67\<bar> < 0.01"
    by (simp add: val)
qed

text \<open>
  In the concrete store the first sample student has, from 2024-03-01 to 2024-03-05, one
  absent, one present and one late mark; a student without marks has percentage 0.
\<close>

theorem getStudentAttendancePercentage_formula_witness:
  "map status (recordsInRange exampleStore ''s1''
      (Some \<lparr> range_from = ''2024-03-01'', range_to = ''2024-03-05'' \<rparr>))
     = [''present'', ''absent'', ''late'']
   \<and> getStudentAttendancePercentage codeUnitCompare exampleStore ''s1''
      (Some \<lparr> range_from = ''2024-03-01'', range_to = ''2024-03-05'' \<rparr>) = 200 / 3
   \<and> recordsInRange exampleStore ''s3'' None = []
   \<and> getStudentAttendancePercentage codeUnitCompare exampleStore ''s3'' None = 0"
proof -
  let ?r = "Some \<lparr> range_from = ''2024-03-01'', range_to = ''2024-03-05'' \<rparr>"
  have h: "map status (recordsInRange exampleStore ''s1'' ?r) = [''present'', ''absent'', ''late'']"
    by (simp add: recordsInRange_def exampleStore_value)
  then have hm: "mset (map status (recordsInRange exampleStore ''s1'' ?r))
      = {#''present'', ''absent'', ''late''#}"
    by (simp only: mset.simps)
  have e: "recordsInRange exampleStore ''s3'' None = []"
    by (simp add: recordsInRange_def exampleStore_value)
  from getStudentAttendancePercentage_formula [of codeUnitCompare exampleStore "''s1''" ?r] hm
  have a: "getStudentAttendancePercentage codeUnitCompare exampleStore ''s1'' ?r = 200 / 3"
    by blast
  from getStudentAttendancePercentage_formula [of codeUnitCompare exampleStore "''s3''" None] e
  have b: "getStudentAttendancePercentage codeUnitCompare exampleStore ''s3'' None = 0"
    by blast
  from h a e b show ?thesis by blast
qed

text \<open>
  Claim C9. For every student and date range \<open>{from, to}\<close>, \<open>getAttendanceHistory\<close> returns
  exactly the records of the student whose date string \<open>d\<close> satisfies \<open>from \<le> d\<close> and
  \<open>d \<le> to\<close> in the lexicographic order of strings: both bounds are included.
\<close>

theorem getAttendanceHistory_range_inclusive:
  "mset (getAttendanceHistory lc st sid (Some r)) =
     mset (filter (\<lambda>a. studentId a = sid \<and> range_from r \<le> date a \<and> date a \<le> range_to r)
            (map snd (attendance st)))
   \<and> (\<forall>a. a \<in> set (getAttendanceHistory lc st sid (Some r)) \<longleftrightarrow>
        a \<in> snd ` set (attendance st) \<and> studentId a = sid
        \<and> range_from r \<le> date a \<and> date a \<le> range_to r)"
proof -
  have R: "recordsInRange st sid (Some r) =
      filter (\<lambda>a. studentId a = sid \<and> range_from r \<le> date a \<and> date a \<le> range_to r)
        (map snd (attendance st))"
    by (simp add: recordsInRange_def)
  have m: "mset (getAttendanceHistory lc st sid (Some r)) = mset (recordsInRange st sid (Some r))"
    by (simp add: getAttendanceHistory_range mset_array_sort)
  have s: "set (getAttendanceHistory lc st sid (Some r)) = set (recordsInRange st sid (Some r))"
    by (simp add: getAttendanceHistory_range set_array_sort)
  show ?thesis
    unfolding m s R by auto
qed

text \<open>
  The first sample student has marks on 2024-03-01, 03-04, 03-05 and 03-06; the range
  from 03-01 to 03-05 returns the first three, the two on the bounds among them.
\<close>

theorem getAttendanceHistory_range_inclusive_witness:
  "mset (map date (getAttendanceHistory codeUnitCompare exampleStore ''s1''
        (Some \<lparr> range_from = ''2024-03-01'', range_to = ''2024-03-05'' \<rparr>)))
     = {#''2024-03-01'', ''2024-03-04'', ''2024-03-05''#}
   \<and> map date (filter (\<lambda>a. studentId a = ''s1'') (map snd (attendance exampleStore)))
     = [''2024-03-04'', ''2024-03-01'', ''2024-03-05'', ''2024-03-06'']"
proof -
  let ?r = "\<lparr> range_from = ''2024-03-01'', range_to = ''2024-03-05'' \<rparr>"
  let ?H = "getAttendanceHistory codeUnitCompare exampleStore ''s1'' (Some ?r)"
  let ?F = "filter (\<lambda>a. studentId a = ''s1'' \<and> range_from ?r \<le> date a \<and> date a \<le> range_to ?r)
            (map snd (attendance exampleStore))"
  from getAttendanceHistory_range_inclusive [of codeUnitCompare exampleStore "''s1''" ?r]
  have "mset ?H = mset ?F" ..
  then have "image_mset date (mset ?H) = image_mset date (mset ?F)" by (rule arg_cong)
  then have "mset (map date ?H) = mset (map date ?F)" by (simp only: mset_map)
  also have "\<dots> = {#''2024-03-01'', ''2024-03-04'', ''2024-03-05''#}"
    by (simp add: exampleStore_value)
  finally have a: "mset (map date ?H) = {#''2024-03-01'', ''2024-03-04'', ''2024-03-05''#}" .
  have b: "map date (filter (\<lambda>a. studentId a = ''s1'') (map snd (attendance exampleStore)))
     = [''2024-03-04'', ''2024-03-01'', ''2024-03-05'', ''2024-03-06'']"
    by (simp add: exampleStore_value)
  from a b show ?thesis by (rule conjI)
qed

subsection \<open>Listing and deleting students\<close>

lemma getStudents_unfold:
  "getStudents lc st filters =
     array_sort (\<lambda>a b. lc (name a) (name b))
       (filter (\<lambda>s. (truthy (opt_className filters) \<longrightarrow> Some (className s) = opt_className filters)
                   \<and> (truthy (opt_section filters) \<longrightarrow> Some (section_student s) = opt_section filters))
          (map snd (students st)))"
  by (simp add: getStudents_def Let_def conj_commute)

lemma set_getStudents_subset: "set (getStudents lc st filters) \<subseteq> snd ` set (students st)"
  by (auto simp: getStudents_unfold set_array_sort)

text \<open>
  The constructor files every student under the student's identifier, and the operations
  of the store keep it so.
\<close>

lemma students_keyed_by_id_iff:
  "students_keyed_by_id st \<longleftrightarrow> (\<forall>(k, s) \<in> set (students st). id_student s = k)"
  by (simp add: students_keyed_by_id_def list_all_iff)

lemma keyed_initializeDefaultData:
  "students_keyed_by_id (initializeDefaultData t s1 s2 s3 a1 a2 now today)"
  by (auto simp: students_keyed_by_id_iff initializeDefaultData_def sampleStudents_def
      split: if_splits)

lemma keyed_update:
  assumes "\<forall>(k, s) \<in> set al. id_student s = k" and "id_student v = k"
  shows "\<forall>(k', s) \<in> set (AList.update k v al). id_student s = k'"
  using assms by (induction al) (auto split: if_splits)

lemma keyed_createStudent:
  "students_keyed_by_id st \<Longrightarrow> students_keyed_by_id (snd (createStudent uid now ins st))"
  unfolding students_keyed_by_id_iff createStudent_def Let_def
  by (simp, rule keyed_update) simp_all

lemma keyed_updateStudent:
  "students_keyed_by_id st \<Longrightarrow> students_keyed_by_id (snd (updateStudent i upd st))"
proof (cases "map_of (students st) i")
  case None
  then show "students_keyed_by_id st \<Longrightarrow> ?thesis" by (simp add: updateStudent_def)
next
  case (Some student)
  assume inv: "students_keyed_by_id st"
  from Some have "(i, student) \<in> set (students st)" by (rule map_of_SomeD)
  with inv have "id_student student = i" by (auto simp: students_keyed_by_id_iff)
  with inv Some show ?thesis
    unfolding students_keyed_by_id_iff updateStudent_def Let_def
    by (simp, intro keyed_update) simp_all
qed

lemma keyed_deleteStudent:
  "students_keyed_by_id st \<Longrightarrow> students_keyed_by_id (snd (deleteStudent i st))"
  by (auto simp: students_keyed_by_id_iff deleteStudent_def AList.delete_eq)

lemma keyed_createAttendance:
  "students_keyed_by_id st \<Longrightarrow> students_keyed_by_id (snd (createAttendance uid now ins st))"
  by (simp add: students_keyed_by_id_def createAttendance_def Let_def)

text \<open>
  Claim C8. Deleting a student \<open>i\<close> removes the student from every later \<open>getStudents\<close>
  result and leaves the attendance records untouched: the history query for the deleted
  identifier returns what it returned before, so the same number of records. Nothing is
  deleted in cascade.
\<close>

theorem deleteStudent_keeps_attendance:
  assumes "students_keyed_by_id st"
  shows "(\<forall>filters. \<forall>s \<in> set (getStudents lc (snd (deleteStudent i st)) filters). id_student s \<noteq> i)
       \<and> attendance (snd (deleteStudent i st)) = attendance st
       \<and> (\<forall>dr. getAttendanceHistory lc (snd (deleteStudent i st)) i dr
                = getAttendanceHistory lc st i dr)
       \<and> (\<forall>dr. length (getAttendanceHistory lc (snd (deleteStudent i st)) i dr)
                = length (getAttendanceHistory lc st i dr))"
proof -
  let ?st' = "snd (deleteStudent i st)"
  have att: "attendance ?st' = attendance st"
    by (simp add: deleteStudent_def)
  have hist: "getAttendanceHistory lc ?st' i dr = getAttendanceHistory lc st i dr" for dr
    by (simp add: getAttendanceHistory_def att)
  have gone: "id_student s \<noteq> i" if "s \<in> set (getStudents lc ?st' filters)" for s filters
  proof -
    from that set_getStudents_subset [of lc ?st' filters]
    obtain k where "(k, s) \<in> set (students ?st')" by auto
    then have "(k, s) \<in> set (students st)" and "k \<noteq> i"
      by (auto simp: deleteStudent_def AList.delete_eq)
    with assms show ?thesis by (auto simp: students_keyed_by_id_iff)
  qed
  from att hist gone show ?thesis by simp
qed

text \<open>
  In the concrete store the first sample student has four marks, before and after the
  deletion.
\<close>

theorem deleteStudent_keeps_attendance_witness:
  "students_keyed_by_id exampleStore
   \<and> fst (deleteStudent ''s1'' exampleStore)
   \<and> map id_student (getStudents codeUnitCompare exampleStore None)
       = [''s1'', ''s4'', ''s5'', ''s2'', ''s3'']
   \<and> map id_student (getStudents codeUnitCompare (snd (deleteStudent ''s1'' exampleStore)) None)
       = [''s4'', ''s5'', ''s2'', ''s3'']
   \<and> length (getAttendanceHistory codeUnitCompare exampleStore ''s1'' None) = 4
   \<and> length (getAttendanceHistory codeUnitCompare (snd (deleteStudent ''s1'' exampleStore))
         ''s1'' None) = 4"
proof -
  have inv: "students_keyed_by_id exampleStore"
    by (simp add: students_keyed_by_id_def exampleStore_value)
  have del: "fst (deleteStudent ''s1'' exampleStore)"
    by (simp add: deleteStudent_def exampleStore_value)
  have before: "map id_student (getStudents codeUnitCompare exampleStore None)
       = [''s1'', ''s4'', ''s5'', ''s2'', ''s3'']"
    by (simp add: getStudents_def array_sort_def codeUnitCompare_def opt_className_def
        opt_section_def truthy_def exampleStore_value)
  have len: "length (getAttendanceHistory codeUnitCompare exampleStore ''s1'' None) = 4"
    by (simp add: getAttendanceHistory_range length_array_sort recordsInRange_def
        exampleStore_value)
  note inst = deleteStudent_keeps_attendance [OF inv, of codeUnitCompare "''s1''"]
  have after: "map id_student (getStudents codeUnitCompare
        (snd (deleteStudent ''s1'' exampleStore)) None) = [''s4'', ''s5'', ''s2'', ''s3'']"
    by code_simp
  from inst len
  have len': "length (getAttendanceHistory codeUnitCompare (snd (deleteStudent ''s1'' exampleStore))
         ''s1'' None) = 4"
    by simp
  from inv del before after len len' show ?thesis by (intro conjI)
qed

text \<open>
  Claim C6. For every filter, \<open>getStudents\<close> returns exactly the students whose class and
  section equal the non-empty fields of the filter, in ascending order of name, and
  students whose names tie keep the order in which the store holds them. The comparison
  is the runtime's \<open>localeCompare\<close> with its default options, which tells upper from lower
  case; it enters as the parameter \<open>lc\<close>, of which only totality and transitivity are used.
  Ties are stated both for equal names and for names the comparator ranks equal.
\<close>

theorem getStudents_filtered_sorted_stable:
  assumes total: "\<forall>a b. lc a b \<le> 0 \<or> lc b a \<le> 0"
    and trans: "\<forall>a b c. lc a b \<le> 0 \<longrightarrow> lc b c \<le> 0 \<longrightarrow> lc a c \<le> 0"
  shows "mset (getStudents lc st filters) =
           mset (filter (\<lambda>s. (truthy (opt_className filters)
                                \<longrightarrow> Some (className s) = opt_className filters)
                            \<and> (truthy (opt_section filters)
                                \<longrightarrow> Some (section_student s) = opt_section filters))
                   (map snd (students st)))
       \<and> sorted_wrt (\<lambda>a b. lc (name a) (name b) \<le> 0) (getStudents lc st filters)
       \<and> (\<forall>n. filter (\<lambda>s. name s = n) (getStudents lc st filters) =
                filter (\<lambda>s. name s = n)
                  (filter (\<lambda>s. (truthy (opt_className filters)
                                  \<longrightarrow> Some (className s) = opt_className filters)
                              \<and> (truthy (opt_section filters)
                                  \<longrightarrow> Some (section_student s) = opt_section filters))
                     (map snd (students st))))
       \<and> (\<forall>n. filter (\<lambda>s. lc (name s) n \<le> 0 \<and> lc n (name s) \<le> 0) (getStudents lc st filters) =
                filter (\<lambda>s. lc (name s) n \<le> 0 \<and> lc n (name s) \<le> 0)
                  (filter (\<lambda>s. (truthy (opt_className filters)
                                  \<longrightarrow> Some (className s) = opt_className filters)
                              \<and> (truthy (opt_section filters)
                                  \<longrightarrow> Some (section_student s) = opt_section filters))
                     (map snd (students st))))"
proof -
  let ?c = "\<lambda>a b :: Student. lc (name a) (name b)"
  let ?M = "filter (\<lambda>s. (truthy (opt_className filters)
                                \<longrightarrow> Some (className s) = opt_className filters)
                            \<and> (truthy (opt_section filters)
                                \<longrightarrow> Some (section_student s) = opt_section filters))
                   (map snd (students st))"
  have G: "getStudents lc st filters = array_sort ?c ?M"
    by (rule getStudents_unfold)
  have tot: "\<And>a b. ?c a b \<le> 0 \<or> ?c b a \<le> 0"
    using total by blast
  have tr: "\<And>a b d. ?c a b \<le> 0 \<Longrightarrow> ?c b d \<le> 0 \<Longrightarrow> ?c a d \<le> 0"
    using trans by blast
  have perm: "mset (getStudents lc st filters) = mset ?M"
    by (simp only: G mset_array_sort)
  have srt: "sorted_wrt (\<lambda>a b. lc (name a) (name b) \<le> 0) (getStudents lc st filters)"
    unfolding G by (rule sorted_array_sort [of ?c, OF tot tr])
  have tie: "filter (\<lambda>s. lc (name s) n \<le> 0 \<and> lc n (name s) \<le> 0) (getStudents lc st filters)
           = filter (\<lambda>s. lc (name s) n \<le> 0 \<and> lc n (name s) \<le> 0) ?M" for n
  proof -
    obtain p :: Student where p: "name p = n"
      by (metis InsertStudent.select_convs(2))
    have "filter (\<lambda>y. ?c y p \<le> 0 \<and> ?c p y \<le> 0) (array_sort ?c ?M)
        = filter (\<lambda>y. ?c y p \<le> 0 \<and> ?c p y \<le> 0) ?M"
      by (rule filter_array_sort_tie [of ?c, OF tot tr])
    then show ?thesis by (simp only: G p)
  qed
  have same: "filter (\<lambda>s. name s = n) (getStudents lc st filters)
            = filter (\<lambda>s. name s = n) ?M" for n
  proof -
    let ?T = "\<lambda>s. lc (name s) n \<le> 0 \<and> lc n (name s) \<le> 0"
    have refl: "lc n n \<le> 0" using total by blast
    have "filter (\<lambda>s. name s = n) xs = filter (\<lambda>s. name s = n) (filter ?T xs)"
      for xs :: "Student list"
      using refl by (induction xs) auto
    then have "filter (\<lambda>s. name s = n) (getStudents lc st filters)
        = filter (\<lambda>s. name s = n) (filter ?T (getStudents lc st filters))"
      and "filter (\<lambda>s. name s = n) ?M = filter (\<lambda>s. name s = n) (filter ?T ?M)"
      by blast+
    then show ?thesis by (simp only: tie)
  qed
  from perm srt same tie show ?thesis by blast
qed


text \<open>
  The concrete store under the code-unit comparator and the class filter 12: the two
  students called Aarav Sharma come first, in the order of their insertion.
\<close>

theorem getStudents_filtered_sorted_stable_witness:
  "map id_student (map snd (students exampleStore)) = [''s1'', ''s2'', ''s3'', ''s4'', ''s5'']
   \<and> map (\<lambda>s. (id_student s, name s))
        (getStudents codeUnitCompare exampleStore
           (Some \<lparr> filter_className = Some ''12'', filter_section = None \<rparr>))
       = [(''s1'', ''Aarav Sharma''), (''s4'', ''Aarav Sharma''),
          (''s2'', ''Priya Patel''), (''s3'', ''Rahul Kumar'')]
   \<and> sorted_wrt (\<lambda>a b. codeUnitCompare (name a) (name b) \<le> 0)
        (getStudents codeUnitCompare exampleStore
           (Some \<lparr> filter_className = Some ''12'', filter_section = None \<rparr>))
   \<and> map id_student (filter (\<lambda>s. name s = ''Aarav Sharma'')
        (getStudents codeUnitCompare exampleStore
           (Some \<lparr> filter_className = Some ''12'', filter_section = None \<rparr>)))
       = [''s1'', ''s4'']"
proof -
  let ?f = "Some \<lparr> filter_className = Some ''12'', filter_section = None \<rparr>"
  have h1: "\<forall>a b. codeUnitCompare a b \<le> 0 \<or> codeUnitCompare b a \<le> 0"
    by (simp add: codeUnitCompare_total)
  have h2: "\<forall>a b c. codeUnitCompare a b \<le> 0 \<longrightarrow> codeUnitCompare b c \<le> 0
        \<longrightarrow> codeUnitCompare a c \<le> 0"
    using codeUnitCompare_trans by blast
  note inst = getStudents_filtered_sorted_stable [OF h1 h2, of exampleStore ?f]
  have ids: "map id_student (map snd (students exampleStore)) = [''s1'', ''s2'', ''s3'', ''s4'', ''s5'']"
    by (simp add: exampleStore_value)
  have res: "map (\<lambda>s. (id_student s, name s)) (getStudents codeUnitCompare exampleStore ?f)
       = [(''s1'', ''Aarav Sharma''), (''s4'', ''Aarav Sharma''),
          (''s2'', ''Priya Patel''), (''s3'', ''Rahul Kumar'')]"
    by (simp add: getStudents_def array_sort_def codeUnitCompare_def opt_className_def
        opt_section_def truthy_def exampleStore_value)
  from inst have srt: "sorted_wrt (\<lambda>a b. codeUnitCompare (name a) (name b) \<le> 0)
        (getStudents codeUnitCompare exampleStore ?f)"
    by (elim conjE)
  from inst have "\<forall>n. filter (\<lambda>s. name s = n) (getStudents codeUnitCompare exampleStore ?f) =
                filter (\<lambda>s. name s = n)
                  (filter (\<lambda>s. (truthy (opt_className ?f)
                                  \<longrightarrow> Some (className s) = opt_className ?f)
                              \<and> (truthy (opt_section ?f)
                                  \<longrightarrow> Some (section_student s) = opt_section ?f))
                     (map snd (students exampleStore)))"
    by (elim conjE)
  then have "filter (\<lambda>s. name s = ''Aarav Sharma'') (getStudents codeUnitCompare exampleStore ?f) =
                filter (\<lambda>s. name s = ''Aarav Sharma'')
                  (filter (\<lambda>s. (truthy (opt_className ?f)
                                  \<longrightarrow> Some (className s) = opt_className ?f)
                              \<and> (truthy (opt_section ?f)
                                  \<longrightarrow> Some (section_student s) = opt_section ?f))
                     (map snd (students exampleStore)))"
    by (rule spec)
  then have ties: "map id_student (filter (\<lambda>s. name s = ''Aarav Sharma'')
        (getStudents codeUnitCompare exampleStore ?f)) = [''s1'', ''s4'']"
    by (simp add: opt_className_def opt_section_def truthy_def exampleStore_value)
  from ids res srt ties show ?thesis by (intro conjI)
qed

subsection \<open>Reports\<close>

lemma parse_ok:
  "report_type body \<in> set [''daily'', ''weekly'', ''monthly'', ''custom''] \<Longrightarrow>
   fmt \<in> set [Some ''excel'', Some ''csv'', Some ''pdf''] \<Longrightarrow>
   reportGenerationSchema_parse (body\<lparr>format := fmt\<rparr>) = Inr (body\<lparr>format := fmt\<rparr>)"
  by (simp add: reportGenerationSchema_parse_def)

lemma reportData_format: "reportData lc st (body\<lparr>format := fmt\<rparr>) = reportData lc st body"
  by (simp add: reportData_def)

text \<open>
  Claim C7, as amended. The report endpoint has no structured-data answer: a request whose
  format is absent or is not one of excel, csv and pdf fails validation, so the branch that
  would send the entries as structured data is never taken. For the same report
  parameters (kind, date range, class filter) the delimited-text, the spreadsheet and the
  document encodings are built from the same per-student entries: one entry per student
  in the order of \<open>getStudents\<close>, each percentage rounded by \<open>Math.round\<close>, and the
  delimited-text and spreadsheet rows carry these values unchanged.
\<close>

theorem generateReport_encodings:
  "(format body \<notin> {Some ''excel'', Some ''csv'', Some ''pdf''}
      \<longrightarrow> generateReport lc st body = Inl ValidationError)
   \<and> (\<forall>entries. generateReport lc st body \<noteq> Inr (JsonData entries))
   \<and> (report_type body \<in> {''daily'', ''weekly'', ''monthly'', ''custom''} \<longrightarrow>
        generateReport lc st (body\<lparr>format := Some ''csv''\<rparr>)
          = Inr (CsvFile (map sheetRow (reportData lc st body)))
      \<and> generateReport lc st (body\<lparr>format := Some ''excel''\<rparr>)
          = Inr (ExcelFile (map sheetRow (reportData lc st body)))
      \<and> generateReport lc st (body\<lparr>format := Some ''pdf''\<rparr>)
          = Inr (PdfFile (reportData lc st body)))
   \<and> map entry_student (reportData lc st body) =
        getStudents lc st
          (if truthy (report_className body)
           then Some \<lparr> filter_className = report_className body, filter_section = None \<rparr>
           else None)
   \<and> (\<forall>e \<in> set (reportData lc st body).
        percentage e = Math_round (getStudentAttendancePercentage lc st
                          (id_student (entry_student e)) (Some (dateRange body)))
        \<and> col_AttendancePct (sheetRow e) = percentage e)"
proof (intro conjI impI allI ballI)
  assume "format body \<notin> {Some ''excel'', Some ''csv'', Some ''pdf''}"
  then show "generateReport lc st body = Inl ValidationError"
    by (simp add: generateReport_def reportGenerationSchema_parse_def)
next
  fix entries
  show "generateReport lc st body \<noteq> Inr (JsonData entries)"
    by (auto simp: generateReport_def reportGenerationSchema_parse_def Let_def)
next
  assume t: "report_type body \<in> {''daily'', ''weekly'', ''monthly'', ''custom''}"
  then have t': "report_type body \<in> set [''daily'', ''weekly'', ''monthly'', ''custom'']"
    by simp
  show "generateReport lc st (body\<lparr>format := Some ''csv''\<rparr>)
          = Inr (CsvFile (map sheetRow (reportData lc st body)))"
    unfolding generateReport_def by (simp add: parse_ok [OF t'] reportData_format)
  show "generateReport lc st (body\<lparr>format := Some ''excel''\<rparr>)
          = Inr (ExcelFile (map sheetRow (reportData lc st body)))"
    unfolding generateReport_def by (simp add: parse_ok [OF t'] reportData_format)
  show "generateReport lc st (body\<lparr>format := Some ''pdf''\<rparr>)
          = Inr (PdfFile (reportData lc st body))"
    unfolding generateReport_def by (simp add: parse_ok [OF t'] reportData_format)
next
  show "map entry_student (reportData lc st body) =
        getStudents lc st
          (if truthy (report_className body)
           then Some \<lparr> filter_className = report_className body, filter_section = None \<rparr>
           else None)"
    by (simp add: reportData_def reportEntry_def Let_def comp_def)
next
  fix e assume e: "e \<in> set (reportData lc st body)"
  then show "percentage e = Math_round (getStudentAttendancePercentage lc st
                          (id_student (entry_student e)) (Some (dateRange body)))"
    by (auto simp: reportData_def reportEntry_def Let_def)
  show "col_AttendancePct (sheetRow e) = percentage e"
    by (simp add: sheetRow_def)
qed

text \<open>
  Claim C7 as stated compares the delimited-text answer with a structured-data answer.
  A request that names no encoding is answered with a validation failure, whatever the
  store holds: here for the concrete store, class 12 and the first five days of March.
\<close>

theorem generateReport_no_structured_data:
  "generateReport codeUnitCompare exampleStore
     \<lparr> report_type = ''custom'',
       dateRange = \<lparr> range_from = ''2024-03-01'', range_to = ''2024-03-05'' \<rparr>,
       report_className = Some ''12'', format = None \<rparr>
   = Inl ValidationError"
  by (simp add: generateReport_def reportGenerationSchema_parse_def)

text \<open>
  The same parameters with the format json are rejected, and with the format csv give
  four rows, the first with the percentage 200/3 rounded to 67.
\<close>

theorem generateReport_encodings_witness:
  "generateReport codeUnitCompare exampleStore
     \<lparr> report_type = ''custom'',
       dateRange = \<lparr> range_from = ''2024-03-01'', range_to = ''2024-03-05'' \<rparr>,
       report_className = Some ''12'', format = Some ''json'' \<rparr>
   = Inl ValidationError
   \<and> generateReport codeUnitCompare exampleStore
     \<lparr> report_type = ''custom'',
       dateRange = \<lparr> range_from = ''2024-03-01'', range_to = ''2024-03-05'' \<rparr>,
       report_className = Some ''12'', format = Some ''csv'' \<rparr>
   = Inr (CsvFile
       [\<lparr>col_AdmissionNo = ''APS001'', col_Name = ''Aarav Sharma'',
           col_Class = ''12-A'', col_TotalDays = 3, col_PresentDays = 2,
           col_AbsentDays = 1, col_AttendancePct = 67\<rparr>,
        \<lparr>col_AdmissionNo = ''APS004'', col_Name = ''Aarav Sharma'',
           col_Class = ''12-B'', col_TotalDays = 0, col_PresentDays = 0,
           col_AbsentDays = 0, col_AttendancePct = 0\<rparr>,
        \<lparr>col_AdmissionNo = ''APS002'', col_Name = ''Priya Patel'',
           col_Class = ''12-A'', col_TotalDays = 1, col_PresentDays = 1,
           col_AbsentDays = 0, col_AttendancePct = 100\<rparr>,
        \<lparr>col_AdmissionNo = ''APS003'', col_Name = ''Rahul Kumar'',
           col_Class = ''12-B'', col_TotalDays = 0, col_PresentDays = 0,
           col_AbsentDays = 0, col_AttendancePct = 0\<rparr>])"
proof -
  let ?b = "\<lambda>f. \<lparr> report_type = ''custom'',
       dateRange = \<lparr> range_from = ''2024-03-01'', range_to = ''2024-03-05'' \<rparr>,
       report_className = Some ''12'', format = f \<rparr>"
  have rows: "map sheetRow (reportData codeUnitCompare exampleStore (?b (Some ''json''))) =
       [\<lparr>col_AdmissionNo = ''APS001'', col_Name = ''Aarav Sharma'',
           col_Class = ''12-A'', col_TotalDays = 3, col_PresentDays = 2,
           col_AbsentDays = 1, col_AttendancePct = 67\<rparr>,
        \<lparr>col_AdmissionNo = ''APS004'', col_Name = ''Aarav Sharma'',
           col_Class = ''12-B'', col_TotalDays = 0, col_PresentDays = 0,
           col_AbsentDays = 0, col_AttendancePct = 0\<rparr>,
        \<lparr>col_AdmissionNo = ''APS002'', col_Name = ''Priya Patel'',
           col_Class = ''12-A'', col_TotalDays = 1, col_PresentDays = 1,
           col_AbsentDays = 0, col_AttendancePct = 100\<rparr>,
        \<lparr>col_AdmissionNo = ''APS003'', col_Name = ''Rahul Kumar'',
           col_Class = ''12-B'', col_TotalDays = 0, col_PresentDays = 0,
           col_AbsentDays = 0, col_AttendancePct = 0\<rparr>]"
    by code_simp
  note inst = generateReport_encodings [of "?b (Some ''json'')" codeUnitCompare exampleStore]
  from inst have a: "generateReport codeUnitCompare exampleStore (?b (Some ''json'')) = Inl ValidationError"
    by simp
  from inst have "generateReport codeUnitCompare exampleStore ((?b (Some ''json''))\<lparr>format := Some ''csv''\<rparr>)
          = Inr (CsvFile (map sheetRow (reportData codeUnitCompare exampleStore (?b (Some ''json'')))))"
    by simp
  then have b: "generateReport codeUnitCompare exampleStore (?b (Some ''csv''))
          = Inr (CsvFile (map sheetRow (reportData codeUnitCompare exampleStore (?b (Some ''json'')))))"
    by simp
  from a b show ?thesis unfolding rows by (rule conjI)
qed

subsection \<open>Marking attendance\<close>

text \<open>The manual path stores whatever it is given.\<close>

lemma postAttendance_always_stores:
  "postAttendance uid now body st =
     (Inr (fst (createAttendance uid now body st)), snd (createAttendance uid now body st))"
  by (simp add: postAttendance_def split_def Let_def)

text \<open>
  The QR and face paths look the student and the day's record up first: an unknown
  student and a second mark for the day are both turned away, with the store unchanged.
\<close>

lemma postAttendanceQr_not_found:
  assumes "qr_method body = Some ''qr''" and "jsonStudentId (qrData body) = Some (Some sid)"
    and "getStudent st sid = None"
  shows "postAttendanceQr jsonStudentId today uid now body st = (Inl NotFoundError, st)"
  using assms by (simp add: postAttendanceQr_def)

lemma postAttendanceQr_duplicate:
  assumes "qr_method body = Some ''qr''" and "jsonStudentId (qrData body) = Some (Some sid)"
    and "getStudent st sid = Some s" and "getAttendance st (id_student s) today = Some a"
  shows "postAttendanceQr jsonStudentId today uid now body st = (Inl DuplicateError, st)"
  using assms by (simp add: postAttendanceQr_def)

lemma postAttendanceFace_not_found:
  assumes "80 \<le> confidence body" and "confidence body \<le> 100"
    and "getStudent st (face_studentId body) = None"
  shows "postAttendanceFace today uid now body st = (Inl NotFoundError, st)"
  using assms by (simp add: postAttendanceFace_def)

lemma postAttendanceFace_duplicate:
  assumes "80 \<le> confidence body" and "confidence body \<le> 100"
    and "getStudent st (face_studentId body) = Some s"
    and "getAttendance st (id_student s) today = Some a"
  shows "postAttendanceFace today uid now body st = (Inl DuplicateError, st)"
  using assms by (simp add: postAttendanceFace_def)

text \<open>
  With these lookups the QR and face paths keep the rule of one record per student and
  date, which the constructor establishes for distinct identifiers.
\<close>

lemma values_update_subset:
  "set (map snd (AList.update k v al)) \<subseteq> insert v (set (map snd al))"
  by (induction al) auto

lemma distinct_keys_update:
  assumes "distinct (map f (map snd al))" and "f v \<notin> f ` set (map snd al)"
  shows "distinct (map f (map snd (AList.update k v al)))"
  using assms
proof (induction al)
  case Nil
  show ?case by simp
next
  case (Cons p ps)
  show ?case
  proof (cases "fst p = k")
    case True
    with Cons.prems show ?thesis by auto
  next
    case False
    from Cons.prems have "f (snd p) \<notin> f ` insert v (set (map snd ps))" by auto
    with values_update_subset [of k v ps]
    have "f (snd p) \<notin> f ` set (map snd (AList.update k v ps))" by blast
    with False Cons show ?thesis by auto
  qed
qed

lemma getAttendance_None:
  "getAttendance st sid d = None \<Longrightarrow>
   (sid, d) \<notin> (\<lambda>a. (studentId a, date a)) ` set (map snd (attendance st))"
  by (auto simp: getAttendance_def find_None_iff)

lemma one_record_createAttendance:
  assumes "one_record_per_day st"
    and "getAttendance st (studentId ins) (date ins) = None"
  shows "one_record_per_day (snd (createAttendance uid now ins st))"
proof -
  let ?f = "\<lambda>a :: Attendance. (studentId a, date a)"
  let ?a = "fst (createAttendance uid now ins st)"
  have key: "?f ?a = (studentId ins, date ins)"
    by (simp add: createAttendance_def Let_def)
  have new: "attendance (snd (createAttendance uid now ins st))
      = AList.update uid ?a (attendance st)"
    by (simp add: createAttendance_def Let_def)
  from getAttendance_None [OF assms(2)]
  have "?f ?a \<notin> ?f ` set (map snd (attendance st))"
    unfolding key .
  with assms(1) have "distinct (map ?f (map snd (AList.update uid ?a (attendance st))))"
    unfolding one_record_per_day_def by (intro distinct_keys_update)
  then show ?thesis
    unfolding one_record_per_day_def new .
qed

lemma one_record_postAttendanceFace:
  "one_record_per_day st \<Longrightarrow>
   one_record_per_day (snd (postAttendanceFace today uid now body st))"
  by (auto simp: postAttendanceFace_def split_def Let_def one_record_createAttendance
      split: option.splits)

lemma one_record_postAttendanceQr:
  "one_record_per_day st \<Longrightarrow>
   one_record_per_day (snd (postAttendanceQr jsonStudentId today uid now body st))"
  by (auto simp: postAttendanceQr_def split_def Let_def one_record_createAttendance
      split: option.splits)

lemma one_record_initializeDefaultData:
  "s1 \<noteq> s2 \<Longrightarrow> one_record_per_day (initializeDefaultData t s1 s2 s3 a1 a2 now today)"
  by (simp add: one_record_per_day_def initializeDefaultData_def sampleStudents_def)

text \<open>
  Claim C5. For every confidence the schema admits (0 to 100), the face endpoint answers
  with the low-confidence rejection exactly when the confidence is below 80; it then
  leaves the store as it was, whatever the store holds, so no attendance record is
  created. From 80 on the request goes through to the store, and for a known student
  without a mark for the day the record is created with the method face: 79 is
  rejected, 80 is accepted.
\<close>

theorem postAttendanceFace_threshold:
  assumes "0 \<le> confidence body" and "confidence body \<le> 100"
  shows "(fst (postAttendanceFace today uid now body st) = Inl LowConfidenceError
            \<longleftrightarrow> confidence body < 80)
       \<and> (confidence body < 80
            \<longrightarrow> postAttendanceFace today uid now body st = (Inl LowConfidenceError, st))
       \<and> (80 \<le> confidence body
            \<longrightarrow> (\<forall>s. getStudent st (face_studentId body) = Some s
                      \<longrightarrow> getAttendance st (id_student s) today = None
                      \<longrightarrow> (\<exists>a. fst (postAttendanceFace today uid now body st) = Inr (s, a)
                               \<and> studentId a = id_student s \<and> date a = today
                               \<and> status a = ''present''
                               \<and> method_attendance a = Some ''face''
                               \<and> map_of (attendance (snd (postAttendanceFace today uid now body st)))
                                    uid = Some a)))"
proof (intro conjI impI allI)
  show "fst (postAttendanceFace today uid now body st) = Inl LowConfidenceError
            \<longleftrightarrow> confidence body < 80"
    using assms
    by (auto simp: postAttendanceFace_def Let_def split_def split: option.splits)
  show "postAttendanceFace today uid now body st = (Inl LowConfidenceError, st)"
    if "confidence body < 80"
    using that assms by (simp add: postAttendanceFace_def)
  fix s
  assume c: "80 \<le> confidence body" and s: "getStudent st (face_studentId body) = Some s"
    and n: "getAttendance st (id_student s) today = None"
  let ?ins = "\<lparr> studentId = id_student s, date = today, status = ''present'',
                 method_attendance = Some ''face'', markedBy = None \<rparr>"
  have r: "postAttendanceFace today uid now body st =
      (Inr (s, fst (createAttendance uid now ?ins st)), snd (createAttendance uid now ?ins st))"
    using c s n assms by (simp add: postAttendanceFace_def split_def Let_def)
  show "\<exists>a. fst (postAttendanceFace today uid now body st) = Inr (s, a)
           \<and> studentId a = id_student s \<and> date a = today \<and> status a = ''present''
           \<and> method_attendance a = Some ''face''
           \<and> map_of (attendance (snd (postAttendanceFace today uid now body st))) uid = Some a"
    unfolding r
    by (simp add: createAttendance_def Let_def or_null_def truthy_def update_Some_unfold)
qed

text \<open>The two sides of the threshold on the concrete store.\<close>

theorem postAttendanceFace_threshold_witness:
  "(0::real) \<le> 79 \<and> (79::real) \<le> 100 \<and> (0::real) \<le> 80 \<and> (80::real) \<le> 100
   \<and> postAttendanceFace ''2024-03-07'' ''a6'' 6
        \<lparr> face_studentId = ''s3'', imageData = ''image'', confidence = 79 \<rparr> exampleStore
       = (Inl LowConfidenceError, exampleStore)
   \<and> fst (postAttendanceFace ''2024-03-07'' ''a6'' 6
        \<lparr> face_studentId = ''s3'', imageData = ''image'', confidence = 80 \<rparr> exampleStore)
       \<noteq> Inl LowConfidenceError
   \<and> map id_attendance (map snd (attendance (snd (postAttendanceFace ''2024-03-07'' ''a6'' 6
        \<lparr> face_studentId = ''s3'', imageData = ''image'', confidence = 80 \<rparr> exampleStore))))
       = [''a1'', ''a2'', ''a3'', ''a4'', ''a5'', ''a6'']"
proof -
  let ?b79 = "\<lparr> face_studentId = ''s3'', imageData = ''image'', confidence = 79 \<rparr>"
  let ?b80 = "\<lparr> face_studentId = ''s3'', imageData = ''image'', confidence = 80 \<rparr>"
  have h79: "0 \<le> confidence ?b79" "confidence ?b79 \<le> 100" by simp_all
  have h80: "0 \<le> confidence ?b80" "confidence ?b80 \<le> 100" by simp_all
  from postAttendanceFace_threshold [OF h79, of "''2024-03-07''" "''a6''" 6 exampleStore]
  have a: "postAttendanceFace ''2024-03-07'' ''a6'' 6 ?b79 exampleStore
       = (Inl LowConfidenceError, exampleStore)"
    by simp
  from postAttendanceFace_threshold [OF h80, of "''2024-03-07''" "''a6''" 6 exampleStore]
  have b: "fst (postAttendanceFace ''2024-03-07'' ''a6'' 6 ?b80 exampleStore)
       \<noteq> Inl LowConfidenceError"
    by simp
  have c: "map id_attendance (map snd (attendance (snd (postAttendanceFace ''2024-03-07'' ''a6'' 6
        ?b80 exampleStore)))) = [''a1'', ''a2'', ''a3'', ''a4'', ''a5'', ''a6'']"
    by code_simp
  from a b c show ?thesis by simp
qed

text \<open>
  Claim C1 says that every marking path looks for a record of the student and date before
  it inserts, so that a second mark for the same student and date fails as a duplicate.
  The manual path does not look: on the concrete store two manual marks for the third
  sample student on 2024-03-07 are both stored, and the store, which held at most one
  record per student and date, then holds two records for that student and date.
\<close>

theorem postAttendance_marks_twice:
  "(let first = \<lparr> studentId = ''s3'', date = ''2024-03-07'', status = ''present'',
                    method_attendance = Some ''manual'', markedBy = None \<rparr>;
        second = \<lparr> studentId = ''s3'', date = ''2024-03-07'', status = ''absent'',
                    method_attendance = Some ''manual'', markedBy = None \<rparr>;
        (r1, st1) = postAttendance ''a6'' 6 first exampleStore;
        (r2, st2) = postAttendance ''a7'' 7 second st1
    in getStudent exampleStore ''s3'' \<noteq> None
     \<and> getAttendance exampleStore ''s3'' ''2024-03-07'' = None
     \<and> r1 = Inr \<lparr> studentId = ''s3'', date = ''2024-03-07'', status = ''present'',
                   method_attendance = Some ''manual'', markedBy = None,
                   id_attendance = ''a6'', timestamp = 6 \<rparr>
     \<and> r2 = Inr \<lparr> studentId = ''s3'', date = ''2024-03-07'', status = ''absent'',
                   method_attendance = Some ''manual'', markedBy = None,
                   id_attendance = ''a7'', timestamp = 7 \<rparr>
     \<and> r2 \<noteq> Inl DuplicateError
     \<and> one_record_per_day exampleStore
     \<and> \<not> one_record_per_day st2
     \<and> map (\<lambda>a. (id_attendance a, status a))
          (filter (\<lambda>a. studentId a = ''s3'' \<and> date a = ''2024-03-07'')
             (map snd (attendance st2)))
        = [(''a6'', ''present''), (''a7'', ''absent'')])"
  by code_simp

text \<open>
  Claim C2 says that every marking path answers not-found for a student identifier that
  resolves to no student and creates no record. The manual path does not resolve the
  identifier: on the concrete store a mark for the identifier ghost, which no student
  has, is stored and returned.
\<close>

theorem postAttendance_unknown_student:
  "(let body = \<lparr> studentId = ''ghost'', date = ''2024-03-07'', status = ''present'',
                   method_attendance = Some ''manual'', markedBy = None \<rparr>;
        (r, st1) = postAttendance ''a6'' 6 body exampleStore
    in getStudent exampleStore ''ghost'' = None
     \<and> r = Inr \<lparr> studentId = ''ghost'', date = ''2024-03-07'', status = ''present'',
                  method_attendance = Some ''manual'', markedBy = None,
                  id_attendance = ''a6'', timestamp = 6 \<rparr>
     \<and> r \<noteq> Inl NotFoundError
     \<and> map studentId (map snd (attendance st1))
        = [''s1'', ''s2'', ''s1'', ''s1'', ''s1'', ''ghost''])"
  by code_simp

text \<open>
  Claim C10. \<open>getAttendanceStats\<close> does not keep the absent count non-negative. Starting
  from the constructor's store and deleting its three students, then creating a student,
  marking the student for a date (through the face path, which checks the student) and
  deleting the student leaves no student and one record for that date: the statistics of
  the date without class filter have \<open>absent = -1\<close>. Deleting the first and third sample
  student from the constructor's store gives \<open>absent = -1\<close> for the day of construction
  as well.
\<close>

theorem getAttendanceStats_absent_negative:
  "(let st0 = initializeDefaultData ''t1'' ''s1'' ''s2'' ''s3'' ''a1'' ''a2'' 0 ''2024-03-04'';
        st1 = snd (deleteStudent ''s3'' (snd (deleteStudent ''s2'' (snd (deleteStudent ''s1'' st0)))));
        st2 = snd (createStudent ''s4'' 1
                \<lparr> admissionNo = ''APS004'', name = ''Meera Nair'', className = ''12'',
                  section_student = ''A'', rollNo = ''03'', email = None, contactNo = None,
                  parentContact = None, photoUrl = None \<rparr> st1);
        st3 = snd (postAttendanceFace ''2024-03-05'' ''a3'' 2
                \<lparr> face_studentId = ''s4'', imageData = ''image'', confidence = 95 \<rparr> st2);
        st4 = snd (deleteStudent ''s4'' st3)
    in getAttendanceStats codeUnitCompare st4 ''2024-03-05'' None
         = \<lparr> totalStudents = 0, present = 1, absent = - 1, late = 0, attendanceRate = 0 \<rparr>
     \<and> absent (getAttendanceStats codeUnitCompare
           (snd (deleteStudent ''s3'' (snd (deleteStudent ''s1'' st0)))) ''2024-03-04'' None) = - 1)"
  by code_simp

end
